theory Spec2Isabelle
  imports Complex_Main "HOL-Library.Multiset"
begin

section \<open>Python values and the feature table\<close>

text \<open>
  The arguments \<open>player_name\<close> and \<open>player_season\<close> of \<open>similarity_comp\<close> are untyped
  Python values. The notebook passes text for the player and the integer \<open>1920\<close> for the
  season, so a value is an integer or a text.
\<close>

datatype pyval = PyInt int | PyStr string

text \<open>Python's \<open>str\<close> on a value: a text is itself, an integer is its decimal numeral.\<close>

definition digit_char :: "nat \<Rightarrow> char" where
  "digit_char d = char_of (48 + d)"

fun str_nat :: "nat \<Rightarrow> string" where
  "str_nat n = (if n < 10 then [digit_char n] else str_nat (n div 10) @ [digit_char (n mod 10)])"

declare str_nat.simps [simp del]

definition py_str :: "pyval \<Rightarrow> string" where
  "py_str v = (case v of
      PyStr s \<Rightarrow> s
    | PyInt i \<Rightarrow> (if i < 0 then CHR ''-'' # str_nat (nat (- i)) else str_nat (nat i)))"

text \<open>
  Python's \<open>==\<close> between two such values: an integer never equals a text, two integers or
  two texts are equal when their contents are. This is the equality of \<open>pyval\<close>.
\<close>

definition py_eq :: "pyval \<Rightarrow> pyval \<Rightarrow> bool" where
  "py_eq a b = (case (a, b) of
      (PyInt i, PyInt j) \<Rightarrow> i = j
    | (PyStr s, PyStr t) \<Rightarrow> s = t
    | _ \<Rightarrow> False)"

text \<open>
  A row of the data frame: the columns \<open>player\<close> and \<open>season\<close> and the four numeric
  columns named \<open>0\<close>, \<open>1\<close>, \<open>2\<close>, \<open>3\<close>. The frame is the list of its rows in order; a
  position in the list is what \<open>iloc\<close> addresses.
\<close>

record row =
  player :: string
  season :: pyval
  c0 :: real
  c1 :: real
  c2 :: real
  c3 :: real

type_synonym table = "row list"

type_synonym matrix = "real list list"

text \<open>
  The ways a call can end in an exception. The first five are the error kinds of the
  specification (Section 7); the library calls of the source raise them as \<open>ValueError\<close>.
  The last is the \<open>IndexError\<close> of \<open>iloc\<close> for a position outside the frame.
\<close>

datatype error =
    MalformedInput
  | NotFound
  | AmbiguousMatch
  | InvalidK
  | DimensionMismatch
  | IndexOutOfBounds

section \<open>Data frame operations used by the query\<close>

text \<open>\<open>df[[0, 1, 2, 3]]\<close>: the four feature columns of every row.\<close>

definition feats :: "row \<Rightarrow> real list" where
  "feats r = [c0 r, c1 r, c2 r, c3 r]"

definition feature_cols :: "table \<Rightarrow> matrix" where
  "feature_cols df = map feats df"

text \<open>
  \<open>df.loc[(df["player"] == str(player_name)) & (df["season"] == player_season)]\<close>: the
  rows whose player equals the string form of the first argument and whose season equals
  the second argument as given, in table order.
\<close>

definition row_mask :: "pyval \<Rightarrow> pyval \<Rightarrow> row \<Rightarrow> bool" where
  "row_mask player_name player_season r =
     (player r = py_str player_name \<and> py_eq (season r) player_season)"

definition loc_rows :: "table \<Rightarrow> pyval \<Rightarrow> pyval \<Rightarrow> table" where
  "loc_rows df player_name player_season = filter (row_mask player_name player_season) df"

text \<open>\<open>.to_numpy().ravel().tolist()\<close>: the rows of a matrix laid end to end.\<close>

definition ravel :: "'a list list \<Rightarrow> 'a list" where
  "ravel m = concat m"

definition query_vector :: "table \<Rightarrow> pyval \<Rightarrow> pyval \<Rightarrow> real list" where
  "query_vector df player_name player_season =
     ravel (feature_cols (loc_rows df player_name player_season))"

text \<open>
  \<open>df.iloc[idx][["player", "season"]]\<close>: the identity columns of the rows at the given
  positions, in the order of the positions. A position outside the frame raises.
\<close>

definition ident :: "row \<Rightarrow> string \<times> pyval" where
  "ident r = (player r, season r)"

definition iloc_ident :: "table \<Rightarrow> nat list \<Rightarrow> error + (string \<times> pyval) list" where
  "iloc_ident df idx =
     (if list_all (\<lambda>i. i < length df) idx then Inr (map (\<lambda>i. ident (df ! i)) idx)
      else Inl IndexOutOfBounds)"

section \<open>The nearest-neighbour index\<close>

text \<open>
  The squared Euclidean distance of two vectors, and the Euclidean distance. Ordering rows
  by the one is ordering them by the other (lemma \<open>euclidean_le_iff\<close> below), so the search
  compares squared distances, which can be computed.
\<close>

definition sqdist :: "real list \<Rightarrow> real list \<Rightarrow> real" where
  "sqdist u v = sum_list (map (\<lambda>(a, b). (a - b) * (a - b)) (zip u v))"

definition euclidean :: "real list \<Rightarrow> real list \<Rightarrow> real" where
  "euclidean u v = sqrt (sqdist u v)"

text \<open>
  The estimator object: the two constructor arguments \<open>n_neighbors\<close> and \<open>radius\<close> and,
  once fitted, the indexed vectors.
\<close>

record nearest_neighbors =
  n_neighbors :: int
  radius :: real
  fit_X :: matrix

definition NearestNeighbors :: "int \<Rightarrow> real \<Rightarrow> nearest_neighbors" where
  "NearestNeighbors n r = \<lparr>n_neighbors = n, radius = r, fit_X = []\<rparr>"

definition n_features :: "nearest_neighbors \<Rightarrow> nat" where
  "n_features est = (case fit_X est of [] \<Rightarrow> 0 | v # _ \<Rightarrow> length v)"

text \<open>
  Modelled from the spec: \<open>NearestNeighbors.fit\<close> is the library's, not this repository's.
  Section 4.1 (Index Builder): the input is a sequence of vectors of one fixed dimension,
  rejected with \<open>MalformedInput\<close> when a row has another dimension; the index is built over
  the vectors in table order and the input is left as it is. An input without any vector
  has no dimension and is rejected as well, as the library does. The build does not compare
  \<open>N\<close> with \<open>k\<close>: \<open>k > N\<close> is the \<open>InvalidK\<close> of the query (Sections 4.2 and 8).
\<close>

definition fit :: "nearest_neighbors \<Rightarrow> matrix \<Rightarrow> error + nearest_neighbors" where
  "fit est X =
     (case X of
        [] \<Rightarrow> Inl MalformedInput
      | v # vs \<Rightarrow>
          if list_all (\<lambda>w. length w = length v) vs then Inr (est\<lparr>fit_X := X\<rparr>)
          else Inl MalformedInput)"

text \<open>
  Modelled from the spec: \<open>NearestNeighbors.kneighbors\<close> is the library's, not this
  repository's. Section 4.2 (Nearest-Neighbor Query): \<open>InvalidK\<close> if \<open>k \<le> 0\<close> or \<open>k > N\<close>;
  \<open>DimensionMismatch\<close> if the length of a query vector is not the dimension of the index;
  otherwise, for each query vector, the distance to every indexed vector is computed, the
  \<open>k\<close> smallest are selected and ordered ascending by distance. The section gives no order
  for the tests; the order here is the library's: the count is tested for \<open>k \<le> 0\<close>, then
  the query vectors are validated, then the count is compared with \<open>N\<close>. Ties in distance
  are broken by original row order (a stable sort of the positions \<open>0, ..., N - 1\<close>), the
  default the section recommends; the library's own order among ties is not specified, and
  no statement below depends on it. With \<open>return_distance=False\<close> only the positions are
  returned. The radius of the estimator is not read.
\<close>

definition nearest :: "matrix \<Rightarrow> nat \<Rightarrow> real list \<Rightarrow> nat list" where
  "nearest X k q = take k (sort_key (\<lambda>i. sqdist q (X ! i)) [0..<length X])"

definition kneighbors :: "nearest_neighbors \<Rightarrow> matrix \<Rightarrow> int \<Rightarrow> error + nat list list" where
  "kneighbors est Q k =
     (if k \<le> 0 then Inl InvalidK
      else if list_ex (\<lambda>q. length q \<noteq> n_features est) Q then Inl DimensionMismatch
      else if int (length (fit_X est)) < k then Inl InvalidK
      else Inr (map (nearest (fit_X est) (nat k)) Q))"

section \<open>The similarity query\<close>

text \<open>
  The body of \<open>similarity_comp\<close> with the three literals of the source (the two \<open>10\<close>s and
  the radius \<open>0.4\<close>) as parameters: \<open>n\<close> and \<open>r\<close> are the constructor arguments, \<open>k\<close> is the
  count passed to \<open>kneighbors\<close>. \<open>neighbor_positions\<close> is the value of \<open>x\<close> after the call of
  \<open>kneighbors\<close>, flattened; \<open>similarity_comp_with\<close> is the frame that is printed.
\<close>

definition neighbor_positions ::
  "int \<Rightarrow> real \<Rightarrow> int \<Rightarrow> table \<Rightarrow> pyval \<Rightarrow> pyval \<Rightarrow> error + nat list" where
  "neighbor_positions n r k df player_name player_season =
     (case fit (NearestNeighbors n r) (feature_cols df) of
        Inl e \<Rightarrow> Inl e
      | Inr n_nbrs \<Rightarrow>
          (let x = query_vector df player_name player_season in
           case kneighbors n_nbrs [x] k of
             Inl e \<Rightarrow> Inl e
           | Inr x \<Rightarrow> Inr (ravel x)))"

definition similarity_comp_with ::
  "int \<Rightarrow> real \<Rightarrow> int \<Rightarrow> table \<Rightarrow> pyval \<Rightarrow> pyval \<Rightarrow> error + (string \<times> pyval) list" where
  "similarity_comp_with n r k df player_name player_season =
     (case neighbor_positions n r k df player_name player_season of
        Inl e \<Rightarrow> Inl e
      | Inr x \<Rightarrow> iloc_ident df x)"

text \<open>The function of the notebook: ten neighbours, radius \<open>0.4\<close>.\<close>

definition similarity_comp :: "table \<Rightarrow> pyval \<Rightarrow> pyval \<Rightarrow> error + (string \<times> pyval) list" where
  "similarity_comp df player_name player_season =
     similarity_comp_with 10 (4 / 10) 10 df player_name player_season"

text \<open>
  The call as the notebook runs it: the frame is an object the caller holds, and the
  result is printed. A call that raises prints nothing.
\<close>

record session =
  frame :: table
  stdout :: "(string \<times> pyval) list list"

definition similarity_comp_print ::
  "session \<Rightarrow> pyval \<Rightarrow> pyval \<Rightarrow> (error + unit) \<times> session" where
  "similarity_comp_print s player_name player_season =
     (case similarity_comp (frame s) player_name player_season of
        Inl e \<Rightarrow> (Inl e, s)
      | Inr x \<Rightarrow> (Inr (), s\<lparr>stdout := stdout s @ [x]\<rparr>))"

section \<open>Example tables\<close>

definition mk_row :: "string \<Rightarrow> int \<Rightarrow> real \<Rightarrow> row" where
  "mk_row p s a = \<lparr>player = p, season = PyInt s, c0 = a, c1 = 0, c2 = 0, c3 = 0\<rparr>"

text \<open>Ten forwards at pairwise different distances from the first.\<close>

definition fw10 :: table where
  "fw10 = [mk_row ''A'' 1920 0, mk_row ''B'' 1920 9, mk_row ''C'' 1920 2,
           mk_row ''D'' 1819 7, mk_row ''E'' 1819 4, mk_row ''F'' 1819 5,
           mk_row ''G'' 1718 6, mk_row ''H'' 1718 3, mk_row ''I'' 1718 8,
           mk_row ''J'' 1718 1]"


text \<open>The ten forwards and a second row for the identity of the first.\<close>

definition fw10_dup :: table where
  "fw10_dup = fw10 @ [mk_row ''A'' 1920 5]"

text \<open>The ten forwards and a player whose name is a numeral.\<close>

definition fw10_numeral :: table where
  "fw10_numeral = fw10 @ [mk_row ''7'' 1920 10]"


section \<open>The distance of two rows, as the specification states it\<close>

text \<open>
  Stated from the specification (Sections 3 and 4.2), not from the code: the Euclidean
  distance of the feature vectors of two rows, the root of the sum of the squared
  differences of the four feature columns. The claims are stated with it and proved of
  the search above.
\<close>

definition row_distance :: "row \<Rightarrow> row \<Rightarrow> real" where
  "row_distance a b =
     sqrt ((c0 a - c0 b)\<^sup>2 + (c1 a - c1 b)\<^sup>2 + (c2 a - c2 b)\<^sup>2 + (c3 a - c3 b)\<^sup>2)"

section \<open>Properties of the building blocks\<close>

lemma length_feats: "length (feats r) = 4"
  by (simp add: feats_def)

lemma fit_feature_cols:
  assumes "df \<noteq> []"
  shows "fit (NearestNeighbors n r) (feature_cols df) =
     Inr \<lparr>n_neighbors = n, radius = r, fit_X = feature_cols df\<rparr>"
proof (cases df)
  case Nil
  with assms show ?thesis by simp
next
  case (Cons a as)
  have "list_all (\<lambda>w. length w = length (feats a)) (map feats as)"
    by (simp add: list_all_iff length_feats)
  with Cons show ?thesis
    by (simp add: fit_def feature_cols_def NearestNeighbors_def)
qed

lemma n_features_feature_cols:
  "df \<noteq> [] \<Longrightarrow> n_features \<lparr>n_neighbors = n, radius = r, fit_X = feature_cols df\<rparr> = 4"
  by (cases df) (simp_all add: n_features_def feature_cols_def length_feats)

lemma length_nearest: "length (nearest X k q) = min k (length X)"
  by (simp add: nearest_def min.commute)

lemma set_nearest: "set (nearest X k q) \<subseteq> {..<length X}"
proof -
  have "set (nearest X k q) \<subseteq> set (sort_key (\<lambda>i. sqdist q (X ! i)) [0..<length X])"
    unfolding nearest_def by (rule set_take_subset)
  then show ?thesis by auto
qed

lemma distinct_nearest: "distinct (nearest X k q)"
  by (simp add: nearest_def)

lemma py_eq_iff: "py_eq a b \<longleftrightarrow> a = b"
  by (cases a; cases b) (simp_all add: py_eq_def)

lemma loc_rows_PyStr:
  "loc_rows T (PyStr name) s = filter (\<lambda>r. player r = name \<and> season r = s) T"
  unfolding loc_rows_def
  by (intro filter_cong refl) (simp add: row_mask_def py_str_def py_eq_iff)

lemma query_vector_single:
  assumes "loc_rows df p s = [x]"
  shows "query_vector df p s = feats x"
  using assms by (simp add: query_vector_def ravel_def feature_cols_def)

lemma length_concat_feats: "length (concat (map feats rs)) = 4 * length rs"
  by (induction rs) (simp_all add: length_feats)

lemma length_query_vector:
  "length (query_vector df p s) = 4 * length (loc_rows df p s)"
  by (simp add: query_vector_def ravel_def feature_cols_def length_concat_feats)

lemma length_feature_cols: "length (feature_cols df) = length df"
  by (simp add: feature_cols_def)

lemma nth_feature_cols: "i < length df \<Longrightarrow> feature_cols df ! i = feats (df ! i)"
  by (simp add: feature_cols_def)

lemma loc_rows_nonempty: "loc_rows df p s \<noteq> [] \<Longrightarrow> df \<noteq> []"
  by (auto simp: loc_rows_def)

lemma iloc_ident_ok:
  assumes "set idx \<subseteq> {..<length df}"
  shows "iloc_ident df idx = Inr (map (\<lambda>i. (player (df ! i), season (df ! i))) idx)"
  using assms by (auto simp: iloc_ident_def ident_def list_all_iff)

lemma set_nearest_cols: "set (nearest (feature_cols df) k q) \<subseteq> {..<length df}"
  using set_nearest[of "feature_cols df" k q] by (simp add: length_feature_cols)

section \<open>The call of the library, case by case\<close>

lemma kneighbors_fit_X:
  "fit_X a = fit_X b \<Longrightarrow> kneighbors a Q k = kneighbors b Q k"
  by (simp add: kneighbors_def n_features_def)

lemma neighbor_positions_empty: "neighbor_positions n r k [] p s = Inl MalformedInput"
  by (simp add: neighbor_positions_def fit_def feature_cols_def)

lemma neighbor_positions_unfold:
  assumes "df \<noteq> []"
  shows "neighbor_positions n r k df p s =
     (case kneighbors \<lparr>n_neighbors = n, radius = r, fit_X = feature_cols df\<rparr>
             [query_vector df p s] k of
        Inl e \<Rightarrow> Inl e
      | Inr x \<Rightarrow> Inr (ravel x))"
  by (simp add: neighbor_positions_def fit_feature_cols[OF assms])

lemma neighbor_positions_ok:
  assumes one: "length (loc_rows df p s) = 1" and k: "0 < k" "k \<le> int (length df)"
  shows "neighbor_positions n r k df p s
           = Inr (nearest (feature_cols df) (nat k) (query_vector df p s))"
proof -
  from one have "loc_rows df p s \<noteq> []" by auto
  then have ne: "df \<noteq> []" by (rule loc_rows_nonempty)
  have len: "length (query_vector df p s) = 4" using one by (simp add: length_query_vector)
  show ?thesis
    using k len
    by (simp add: neighbor_positions_unfold[OF ne] kneighbors_def
        n_features_feature_cols[OF ne] length_feature_cols ravel_def)
qed

lemma neighbor_positions_mismatch:
  assumes "0 < k" "df \<noteq> []" "length (loc_rows df p s) \<noteq> 1"
  shows "neighbor_positions n r k df p s = Inl DimensionMismatch"
proof -
  have "length (query_vector df p s) \<noteq> 4" using assms(3) by (simp add: length_query_vector)
  then show ?thesis
    using assms(1)
    by (simp add: neighbor_positions_unfold[OF assms(2)] kneighbors_def
        n_features_feature_cols[OF assms(2)])
qed



lemma similarity_comp_with_error:
  "neighbor_positions n r k df p s = Inl e \<Longrightarrow> similarity_comp_with n r k df p s = Inl e"
  by (simp add: similarity_comp_with_def)

lemma similarity_comp_with_ok:
  assumes one: "length (loc_rows df p s) = 1" and k: "0 < k" "k \<le> int (length df)"
  shows "similarity_comp_with n r k df p s
           = Inr (map (\<lambda>i. (player (df ! i), season (df ! i)))
                   (nearest (feature_cols df) (nat k) (query_vector df p s)))"
  by (simp add: similarity_comp_with_def neighbor_positions_ok[OF one k] iloc_ident_ok
      set_nearest_cols)

section \<open>The search returns the nearest rows in order\<close>

lemma sorted_nearest: "sorted (map (\<lambda>i. sqdist q (X ! i)) (nearest X k q))"
  unfolding nearest_def take_map[symmetric] by (simp add: sorted_wrt_take)

lemma nearest_topk:
  assumes i: "i < length X" "i \<notin> set (nearest X k q)" and j: "j \<in> set (nearest X k q)"
  shows "sqdist q (X ! j) \<le> sqdist q (X ! i)"
proof -
  let ?f = "\<lambda>i. sqdist q (X ! i)"
  let ?ys = "sort_key ?f [0..<length X]"
  have "i \<in> set ?ys" using i(1) by simp
  then have "i \<in> set (take k ?ys) \<union> set (drop k ?ys)"
    by (simp only: set_append[symmetric] append_take_drop_id)
  with i(2) have di: "i \<in> set (drop k ?ys)" by (simp add: nearest_def)
  have "sorted (map ?f (take k ?ys @ drop k ?ys))"
    by (simp only: append_take_drop_id sorted_sort_key)
  then have "\<forall>a\<in>set (take k ?ys). \<forall>b\<in>set (drop k ?ys). ?f a \<le> ?f b"
    unfolding map_append sorted_append by simp
  with di j show ?thesis by (simp add: nearest_def)
qed

lemma euclidean_le_iff: "euclidean q u \<le> euclidean q v \<longleftrightarrow> sqdist q u \<le> sqdist q v"
  by (simp add: euclidean_def)

lemma sqdist_feats:
  "sqdist (feats a) (feats b) =
     (c0 a - c0 b)\<^sup>2 + (c1 a - c1 b)\<^sup>2 + (c2 a - c2 b)\<^sup>2 + (c3 a - c3 b)\<^sup>2"
  by (simp add: sqdist_def feats_def power2_eq_square)

lemma row_distance_euclidean: "row_distance a b = euclidean (feats a) (feats b)"
  by (simp add: row_distance_def euclidean_def sqdist_feats)



lemma query_vector_match:
  assumes one: "length (filter (\<lambda>r. player r = name \<and> season r = s) T) = 1"
    and i0: "i0 < length T" "player (T ! i0) = name" "season (T ! i0) = s"
  shows "query_vector T (PyStr name) s = feats (T ! i0)"
proof -
  from one obtain x where x: "loc_rows T (PyStr name) s = [x]"
    by (cases "loc_rows T (PyStr name) s") (simp_all add: loc_rows_PyStr)
  from i0 have "T ! i0 \<in> set (loc_rows T (PyStr name) s)" by (simp add: loc_rows_PyStr)
  with x have "x = T ! i0" by simp
  with x show ?thesis by (simp add: query_vector_single)
qed

text \<open>
  The positions the search returns for the feature vector of a row, measured with the
  distance of the specification: they are in order of non-decreasing distance to that row,
  and no position left out is nearer than one returned.
\<close>

lemma sorted_row_distance:
  assumes "i0 < length T"
  shows "sorted (map (\<lambda>i. row_distance (T ! i0) (T ! i))
                   (nearest (feature_cols T) k (feats (T ! i0))))"
proof -
  let ?idx = "nearest (feature_cols T) k (feats (T ! i0))"
  let ?f = "\<lambda>i. sqdist (feats (T ! i0)) (feature_cols T ! i)"
  have "sorted_wrt (\<lambda>i j. ?f i \<le> ?f j) ?idx"
    using sorted_nearest[of "feats (T ! i0)" "feature_cols T" k] by (simp add: sorted_wrt_map)
  then have "sorted_wrt (\<lambda>i j. row_distance (T ! i0) (T ! i) \<le> row_distance (T ! i0) (T ! j)) ?idx"
  proof (rule sorted_wrt_mono_rel[rotated])
    fix i j assume "i \<in> set ?idx" "j \<in> set ?idx" "?f i \<le> ?f j"
    moreover from this set_nearest_cols[of T k "feats (T ! i0)"]
    have "i < length T" "j < length T" by auto
    ultimately show "row_distance (T ! i0) (T ! i) \<le> row_distance (T ! i0) (T ! j)"
      by (simp add: row_distance_euclidean euclidean_le_iff nth_feature_cols)
  qed
  then show ?thesis by (simp add: sorted_wrt_map)
qed

lemma topk_row_distance:
  assumes "i < length T" "i \<notin> set (nearest (feature_cols T) k (feats (T ! i0)))"
    and "j \<in> set (nearest (feature_cols T) k (feats (T ! i0)))"
  shows "row_distance (T ! i0) (T ! j) \<le> row_distance (T ! i0) (T ! i)"
proof -
  from assms(3) set_nearest_cols[of T k "feats (T ! i0)"] have jl: "j < length T" by auto
  have "sqdist (feats (T ! i0)) (feature_cols T ! j) \<le> sqdist (feats (T ! i0)) (feature_cols T ! i)"
    using assms by (intro nearest_topk) (simp_all add: length_feature_cols)
  then show ?thesis
    using assms(1) jl by (simp add: row_distance_euclidean euclidean_le_iff nth_feature_cols)
qed


lemma unique_row_position:
  assumes "length (filter (\<lambda>r. player r = name \<and> season r = s) T) = 1"
  shows "\<exists>i0<length T. player (T ! i0) = name \<and> season (T ! i0) = s"
proof -
  from assms obtain x where "filter (\<lambda>r. player r = name \<and> season r = s) T = [x]"
    by (cases "filter (\<lambda>r. player r = name \<and> season r = s) T") simp_all
  then have "x \<in> set (filter (\<lambda>r. player r = name \<and> season r = s) T)" by simp
  then have "x \<in> set T" "player x = name" "season x = s" by simp_all
  then show ?thesis by (auto simp: in_set_conv_nth)
qed

lemma query_result:
  assumes one: "length (filter (\<lambda>r. player r = name \<and> season r = s) T) = 1"
    and i0: "i0 < length T" "player (T ! i0) = name" "season (T ! i0) = s"
    and k: "0 < k" "k \<le> int (length T)"
  shows "similarity_comp_with n r k T (PyStr name) s
           = Inr (map (\<lambda>i. (player (T ! i), season (T ! i)))
                   (nearest (feature_cols T) (nat k) (feats (T ! i0))))"
proof -
  from one have one': "length (loc_rows T (PyStr name) s) = 1" by (simp add: loc_rows_PyStr)
  show ?thesis
    using similarity_comp_with_ok[OF one' k, of n r]
    by (simp add: query_vector_match[OF one i0])
qed

section \<open>The claims\<close>

text \<open>
  C1. For a table of at least ten rows (every row has four feature columns) in which the
  identity (player, season) occurs exactly once, the query returns exactly ten identities,
  and each is the pair of the player and the season of a row of the table; they are the
  pairs of ten different rows.
\<close>

theorem similarity_comp_ten_rows_of_table:
  assumes "length (filter (\<lambda>r. player r = name \<and> season r = s) T) = 1" and "10 \<le> length T"
  shows "\<exists>res. similarity_comp T (PyStr name) s = Inr res \<and> length res = 10
           \<and> set res \<subseteq> (\<lambda>r. (player r, season r)) ` set T
           \<and> (\<exists>idx. distinct idx \<and> (\<forall>i\<in>set idx. i < length T)
                  \<and> res = map (\<lambda>i. (player (T ! i), season (T ! i))) idx)"
proof -
  from unique_row_position[OF assms(1)] obtain i0
    where i0: "i0 < length T" "player (T ! i0) = name" "season (T ! i0) = s" by blast
  let ?idx = "nearest (feature_cols T) (nat 10) (feats (T ! i0))"
  let ?res = "map (\<lambda>i. (player (T ! i), season (T ! i))) ?idx"
  have k: "(0::int) < 10" "(10::int) \<le> int (length T)" using assms(2) by simp_all
  have a: "similarity_comp T (PyStr name) s = Inr ?res"
    unfolding similarity_comp_def by (rule query_result[OF assms(1) i0 k])
  have b: "length ?res = 10" using assms(2) by (simp add: length_nearest length_feature_cols)
  have sub: "\<forall>i\<in>set ?idx. i < length T"
    using set_nearest_cols[of T "nat 10" "feats (T ! i0)"] by auto
  then have c: "set ?res \<subseteq> (\<lambda>r. (player r, season r)) ` set T" by auto
  have d: "distinct ?idx" by (rule distinct_nearest)
  from a b c d sub show ?thesis by blast
qed

theorem similarity_comp_ten_rows_of_table_witness:
  "length (filter (\<lambda>r. player r = ''A'' \<and> season r = PyInt 1920) fw10) = 1 \<and> 10 \<le> length fw10
   \<and> (\<exists>res. similarity_comp fw10 (PyStr ''A'') (PyInt 1920) = Inr res \<and> length res = 10
          \<and> set res \<subseteq> (\<lambda>r. (player r, season r)) ` set fw10
          \<and> (\<exists>idx. distinct idx \<and> (\<forall>i\<in>set idx. i < length fw10)
                 \<and> res = map (\<lambda>i. (player (fw10 ! i), season (fw10 ! i))) idx))"
proof -
  have h1: "length (filter (\<lambda>r. player r = ''A'' \<and> season r = PyInt 1920) fw10) = 1"
    by (simp add: fw10_def mk_row_def)
  have h2: "10 \<le> length fw10"
    by (simp add: fw10_def)
  from similarity_comp_ten_rows_of_table[OF h1 h2] h1 h2 show ?thesis by blast
qed

text \<open>
  C2. For such a query, with the queried row at position \<open>i0\<close>: the ten returned rows are
  in order of non-decreasing Euclidean distance of their four feature columns to those of
  the queried row, and no returned row is farther from the queried row than a row that
  was not returned.
\<close>

theorem similarity_comp_sorted_top_k:
  assumes "length (filter (\<lambda>r. player r = name \<and> season r = s) T) = 1" and "10 \<le> length T"
    and "i0 < length T" and "player (T ! i0) = name" and "season (T ! i0) = s"
  shows "\<exists>idx. similarity_comp T (PyStr name) s
                 = Inr (map (\<lambda>i. (player (T ! i), season (T ! i))) idx)
           \<and> length idx = 10 \<and> distinct idx \<and> set idx \<subseteq> {..<length T}
           \<and> sorted (map (\<lambda>i. row_distance (T ! i0) (T ! i)) idx)
           \<and> (\<forall>i<length T. i \<notin> set idx \<longrightarrow>
                 (\<forall>j\<in>set idx. row_distance (T ! i0) (T ! j) \<le> row_distance (T ! i0) (T ! i)))"
proof -
  let ?idx = "nearest (feature_cols T) (nat 10) (feats (T ! i0))"
  have k: "(0::int) < 10" "(10::int) \<le> int (length T)" using assms(2) by simp_all
  have a: "similarity_comp T (PyStr name) s
             = Inr (map (\<lambda>i. (player (T ! i), season (T ! i))) ?idx)"
    unfolding similarity_comp_def by (rule query_result[OF assms(1) assms(3-5) k])
  have b: "length ?idx = 10" using assms(2) by (simp add: length_nearest length_feature_cols)
  have c: "distinct ?idx" by (rule distinct_nearest)
  have d: "set ?idx \<subseteq> {..<length T}" by (rule set_nearest_cols)
  have e: "sorted (map (\<lambda>i. row_distance (T ! i0) (T ! i)) ?idx)"
    using assms(3) by (rule sorted_row_distance)
  have f: "\<forall>i<length T. i \<notin> set ?idx \<longrightarrow>
             (\<forall>j\<in>set ?idx. row_distance (T ! i0) (T ! j) \<le> row_distance (T ! i0) (T ! i))"
    using topk_row_distance by blast
  from a b c d e f show ?thesis by blast
qed

theorem similarity_comp_sorted_top_k_witness:
  "length (filter (\<lambda>r. player r = ''A'' \<and> season r = PyInt 1920) fw10_numeral) = 1
   \<and> 10 \<le> length fw10_numeral
   \<and> 0 < length fw10_numeral \<and> player (fw10_numeral ! 0) = ''A''
   \<and> season (fw10_numeral ! 0) = PyInt 1920
   \<and> (\<exists>idx. similarity_comp fw10_numeral (PyStr ''A'') (PyInt 1920)
               = Inr (map (\<lambda>i. (player (fw10_numeral ! i), season (fw10_numeral ! i))) idx)
           \<and> length idx = 10 \<and> distinct idx \<and> set idx \<subseteq> {..<length fw10_numeral}
           \<and> sorted (map (\<lambda>i. row_distance (fw10_numeral ! 0) (fw10_numeral ! i)) idx)
           \<and> (\<forall>i<length fw10_numeral. i \<notin> set idx \<longrightarrow>
                 (\<forall>j\<in>set idx. row_distance (fw10_numeral ! 0) (fw10_numeral ! j)
                              \<le> row_distance (fw10_numeral ! 0) (fw10_numeral ! i))))"
proof -
  have h1: "length (filter (\<lambda>r. player r = ''A'' \<and> season r = PyInt 1920) fw10_numeral) = 1"
    by (simp add: fw10_numeral_def fw10_def mk_row_def)
  have h2: "10 \<le> length fw10_numeral"
    by (simp add: fw10_numeral_def fw10_def)
  have h3: "0 < length fw10_numeral"
    by (simp add: fw10_numeral_def fw10_def)
  have h4: "player (fw10_numeral ! 0) = ''A''"
    by (simp add: fw10_numeral_def fw10_def mk_row_def)
  have h5: "season (fw10_numeral ! 0) = PyInt 1920"
    by (simp add: fw10_numeral_def fw10_def mk_row_def)
  from similarity_comp_sorted_top_k[OF h1 h2 h3 h4 h5] h1 h2 h3 h4 h5 show ?thesis by blast
qed




text \<open>
  C5. For an identity that no row of the table has, the query fails and prints nothing.
  The error is not \<open>NotFound\<close>: the lookup does not test for an empty selection, and for a
  table of at least ten rows the error is the \<open>DimensionMismatch\<close> of the nearest-neighbour
  call for the empty query vector.
\<close>

theorem similarity_comp_absent_identity:
  assumes "filter (\<lambda>r. player r = name \<and> season r = s) (frame st) = []"
  shows "\<exists>e. similarity_comp (frame st) (PyStr name) s = Inl e
            \<and> similarity_comp_print st (PyStr name) s = (Inl e, st)
            \<and> e \<noteq> NotFound
            \<and> (10 \<le> length (frame st) \<longrightarrow> e = DimensionMismatch)"
proof (cases "frame st = []")
  case True
  then have "similarity_comp (frame st) (PyStr name) s = Inl MalformedInput"
    by (simp add: similarity_comp_def similarity_comp_with_error neighbor_positions_empty)
  with True show ?thesis by (simp add: similarity_comp_print_def)
next
  case False
  from assms have "length (loc_rows (frame st) (PyStr name) s) \<noteq> 1"
    by (simp add: loc_rows_PyStr)
  with False have "neighbor_positions 10 (4 / 10) 10 (frame st) (PyStr name) s = Inl DimensionMismatch"
    by (intro neighbor_positions_mismatch) simp_all
  then have "similarity_comp (frame st) (PyStr name) s = Inl DimensionMismatch"
    by (simp add: similarity_comp_def similarity_comp_with_error)
  then show ?thesis by (simp add: similarity_comp_print_def)
qed

theorem similarity_comp_absent_identity_witness:
  "filter (\<lambda>r. player r = ''Z'' \<and> season r = PyInt 1920) (frame \<lparr>frame = fw10, stdout = []\<rparr>) = []
   \<and> (\<exists>e. similarity_comp (frame \<lparr>frame = fw10, stdout = []\<rparr>) (PyStr ''Z'') (PyInt 1920) = Inl e
          \<and> similarity_comp_print \<lparr>frame = fw10, stdout = []\<rparr> (PyStr ''Z'') (PyInt 1920)
              = (Inl e, \<lparr>frame = fw10, stdout = []\<rparr>)
          \<and> e \<noteq> NotFound
          \<and> (10 \<le> length (frame \<lparr>frame = fw10, stdout = []\<rparr>) \<longrightarrow> e = DimensionMismatch))"
proof -
  have h: "filter (\<lambda>r. player r = ''Z'' \<and> season r = PyInt 1920)
             (frame \<lparr>frame = fw10, stdout = []\<rparr>) = []"
    by (simp add: fw10_def mk_row_def)
  from similarity_comp_absent_identity[OF h] h show ?thesis by blast
qed

text \<open>
  The query for a player who is not among the ten forwards ends with \<open>DimensionMismatch\<close>,
  not with \<open>NotFound\<close>.
\<close>

theorem similarity_comp_absent_not_NotFound:
  "filter (\<lambda>r. player r = ''Z'' \<and> season r = PyInt 1920) fw10 = []
   \<and> similarity_comp fw10 (PyStr ''Z'') (PyInt 1920) = Inl DimensionMismatch
   \<and> similarity_comp fw10 (PyStr ''Z'') (PyInt 1920) \<noteq> Inl NotFound"
  by (simp add: similarity_comp_def similarity_comp_with_def neighbor_positions_def fit_def
      NearestNeighbors_def feature_cols_def feats_def kneighbors_def n_features_def
      query_vector_def loc_rows_def row_mask_def py_str_def py_eq_def ravel_def nearest_def
      sqdist_def iloc_ident_def ident_def
      fw10_def mk_row_def)

text \<open>
  C6. The radius given to the estimator does not reach the result: the query with one
  radius equals the query with any other, and the function of the notebook equals the
  query with ten neighbours and any radius.
\<close>

theorem radius_not_read:
  "similarity_comp_with n r1 k T p s = similarity_comp_with n r2 k T p s
   \<and> similarity_comp T p s = similarity_comp_with 10 r1 10 T p s"
proof -
  have np: "neighbor_positions n a k T p s = neighbor_positions n b k T p s" for a b n k
  proof (cases "T = []")
    case True
    then show ?thesis by (simp add: neighbor_positions_empty)
  next
    case False
    show ?thesis
      unfolding neighbor_positions_unfold[OF False]
      by (simp add: kneighbors_fit_X[of "\<lparr>n_neighbors = n, radius = a, fit_X = feature_cols T\<rparr>"
            "\<lparr>n_neighbors = n, radius = b, fit_X = feature_cols T\<rparr>"])
  qed
  have sc: "similarity_comp_with n a k T p s = similarity_comp_with n b k T p s" for a b n k
    using np[of n a k b] by (simp add: similarity_comp_with_def)
  from sc[of n r1 k r2] sc[of 10 "4 / 10" 10 r1] show ?thesis
    unfolding similarity_comp_def by simp
qed

theorem radius_not_read_witness:
  "similarity_comp_with 10 (4 / 10) 10 fw10 (PyStr ''A'') (PyInt 1920)
     = similarity_comp_with 10 100 10 fw10 (PyStr ''A'') (PyInt 1920)"
  using radius_not_read[of 10 "4 / 10" 10 fw10 "PyStr ''A''" "PyInt 1920" 100]
  by (rule conjunct1)




text \<open>
  C9. When more than one row matches the identity, the query vector is not the feature
  vector of the first match: it is the feature vectors of all \<open>m\<close> matches laid end to
  end, of length \<open>4 * m\<close>, which is not the dimension \<open>4\<close> of the index, and the
  nearest-neighbour call fails; nothing is returned.
\<close>

theorem similarity_comp_duplicate_identity:
  assumes "1 < length (loc_rows T p s)"
  shows "\<exists>est e. fit (NearestNeighbors 10 (4 / 10)) (feature_cols T) = Inr est
           \<and> n_features est = 4
           \<and> query_vector T p s = concat (map feats (loc_rows T p s))
           \<and> length (query_vector T p s) = 4 * length (loc_rows T p s)
           \<and> length (query_vector T p s) \<noteq> n_features est
           \<and> query_vector T p s \<noteq> feats (hd (loc_rows T p s))
           \<and> kneighbors est [query_vector T p s] 10 = Inl e
           \<and> similarity_comp T p s = Inl e
           \<and> (10 \<le> length T \<longrightarrow> e = DimensionMismatch)"
proof -
  let ?est = "\<lparr>n_neighbors = 10, radius = 4 / 10, fit_X = feature_cols T\<rparr>"
  from assms have "loc_rows T p s \<noteq> []" by auto
  then have ne: "T \<noteq> []" by (rule loc_rows_nonempty)
  have a: "fit (NearestNeighbors 10 (4 / 10)) (feature_cols T) = Inr ?est"
    using ne by (rule fit_feature_cols)
  have b: "n_features ?est = 4" using ne by (rule n_features_feature_cols)
  have c: "query_vector T p s = concat (map feats (loc_rows T p s))"
    by (simp add: query_vector_def ravel_def feature_cols_def)
  have d: "length (query_vector T p s) = 4 * length (loc_rows T p s)"
    by (rule length_query_vector)
  have e: "length (query_vector T p s) \<noteq> n_features ?est"
    using assms b d by simp
  have f: "query_vector T p s \<noteq> feats (hd (loc_rows T p s))"
  proof
    assume "query_vector T p s = feats (hd (loc_rows T p s))"
    then have "length (query_vector T p s) = 4" by (simp add: length_feats)
    with e b show False by simp
  qed
  have g: "kneighbors ?est [query_vector T p s] 10 = Inl DimensionMismatch"
    using e by (simp add: kneighbors_def)
  have h: "similarity_comp T p s = Inl DimensionMismatch"
    using g by (simp add: similarity_comp_def similarity_comp_with_def
        neighbor_positions_unfold[OF ne])
  from a b c d e f g h show ?thesis by auto
qed

theorem similarity_comp_duplicate_identity_witness:
  "1 < length (loc_rows fw10_dup (PyStr ''A'') (PyInt 1920))
   \<and> (\<exists>est e. fit (NearestNeighbors 10 (4 / 10)) (feature_cols fw10_dup) = Inr est
           \<and> n_features est = 4
           \<and> query_vector fw10_dup (PyStr ''A'') (PyInt 1920)
               = concat (map feats (loc_rows fw10_dup (PyStr ''A'') (PyInt 1920)))
           \<and> length (query_vector fw10_dup (PyStr ''A'') (PyInt 1920))
               = 4 * length (loc_rows fw10_dup (PyStr ''A'') (PyInt 1920))
           \<and> length (query_vector fw10_dup (PyStr ''A'') (PyInt 1920)) \<noteq> n_features est
           \<and> query_vector fw10_dup (PyStr ''A'') (PyInt 1920)
               \<noteq> feats (hd (loc_rows fw10_dup (PyStr ''A'') (PyInt 1920)))
           \<and> kneighbors est [query_vector fw10_dup (PyStr ''A'') (PyInt 1920)] 10 = Inl e
           \<and> similarity_comp fw10_dup (PyStr ''A'') (PyInt 1920) = Inl e
           \<and> (10 \<le> length fw10_dup \<longrightarrow> e = DimensionMismatch))"
proof -
  have h: "1 < length (loc_rows fw10_dup (PyStr ''A'') (PyInt 1920))"
    by (simp add: fw10_dup_def fw10_def mk_row_def loc_rows_def row_mask_def py_str_def
        py_eq_def)
  from similarity_comp_duplicate_identity[OF h] h show ?thesis by blast
qed

text \<open>
  C10. The match coerces the player and not the season. Two player arguments with the same
  string form give the same query, so a value that is not a text matches the stored name
  it prints as; the season is compared as given, so the text \<open>1920\<close>, although it is the
  string form of the integer \<open>1920\<close>, does not match a stored integer \<open>1920\<close>.
\<close>

theorem identity_match_coercion:
  "(py_str a = py_str b \<longrightarrow> similarity_comp T a s = similarity_comp T b s)
   \<and> loc_rows T a s = filter (\<lambda>r. player r = py_str a \<and> season r = s) T
   \<and> py_str (PyInt 1920) = py_str (PyStr ''1920'')
   \<and> loc_rows fw10 (PyStr ''A'') (PyInt 1920) = [fw10 ! 0]
   \<and> loc_rows fw10 (PyStr ''A'') (PyStr ''1920'') = []
   \<and> similarity_comp fw10 (PyStr ''A'') (PyInt 1920) \<noteq> similarity_comp fw10 (PyStr ''A'') (PyStr ''1920'')"
proof -
  have mask: "row_mask a s = row_mask b s" if "py_str a = py_str b" for a b s
    using that by (simp add: row_mask_def fun_eq_iff)
  have a: "similarity_comp T a s = similarity_comp T b s" if "py_str a = py_str b"
  proof -
    have qv: "query_vector T a s = query_vector T b s"
      using mask[OF that, of s] by (simp add: query_vector_def loc_rows_def)
    show ?thesis
    proof (cases "T = []")
      case True
      then show ?thesis
        by (simp add: similarity_comp_def similarity_comp_with_def neighbor_positions_empty)
    next
      case False
      with qv show ?thesis
        by (simp add: similarity_comp_def similarity_comp_with_def
            neighbor_positions_unfold[OF False])
    qed
  qed
  have b: "loc_rows T a s = filter (\<lambda>r. player r = py_str a \<and> season r = s) T"
    unfolding loc_rows_def by (intro filter_cong refl) (simp add: row_mask_def py_eq_iff)
  have c: "py_str (PyInt 1920) = py_str (PyStr ''1920'')" by code_simp
  have d: "loc_rows fw10 (PyStr ''A'') (PyInt 1920) = [fw10 ! 0]"
    by (simp add: fw10_def mk_row_def loc_rows_def row_mask_def py_str_def py_eq_def)
  have e: "loc_rows fw10 (PyStr ''A'') (PyStr ''1920'') = []"
    by (simp add: fw10_def mk_row_def loc_rows_def row_mask_def py_str_def py_eq_def)
  have ne: "fw10 \<noteq> []" by (simp add: fw10_def)
  have "neighbor_positions 10 (4 / 10) 10 fw10 (PyStr ''A'') (PyStr ''1920'') = Inl DimensionMismatch"
    using e ne by (intro neighbor_positions_mismatch) simp_all
  then have "similarity_comp fw10 (PyStr ''A'') (PyStr ''1920'') = Inl DimensionMismatch"
    by (simp add: similarity_comp_def similarity_comp_with_error)
  moreover have "\<exists>res. similarity_comp fw10 (PyStr ''A'') (PyInt 1920) = Inr res"
    using d by (simp add: similarity_comp_def similarity_comp_with_ok fw10_def)
  ultimately have f: "similarity_comp fw10 (PyStr ''A'') (PyInt 1920)
      \<noteq> similarity_comp fw10 (PyStr ''A'') (PyStr ''1920'')" by auto
  from a b c d e f show ?thesis by blast
qed

theorem identity_match_coercion_witness:
  "py_str (PyInt 7) = py_str (PyStr ''7'')
   \<and> loc_rows fw10_numeral (PyInt 7) (PyInt 1920) = [fw10_numeral ! 10]
   \<and> similarity_comp fw10_numeral (PyInt 7) (PyInt 1920)
     = similarity_comp fw10_numeral (PyStr ''7'') (PyInt 1920)"
proof -
  have h: "py_str (PyInt 7) = py_str (PyStr ''7'')" by code_simp
  have l: "loc_rows fw10_numeral (PyInt 7) (PyInt 1920) = [fw10_numeral ! 10]" by code_simp
  from identity_match_coercion[of "PyInt 7" "PyStr ''7''" fw10_numeral "PyInt 1920"] h l
  show ?thesis by blast
qed

end
